theory Spec2Isabelle
  imports Complex_Main "HOL-Library.Monad_Syntax"
begin

section \<open>Values that cross the HTTP boundary\<close>

text \<open>
  The SDK (client.py, types.py) does no arithmetic on floats: a float is received,
  validated and stored, or sent. A finite float is denoted by the rational number its
  decimal literal stands for; the non-finite values that Python's JSON reader accepts
  are separate constructors.
\<close>

datatype pyfloat = PyFloat rat | PyInf | PyNegInf | PyNaN

text \<open>
  What \<^verbatim>\<open>res.json()\<close> yields and what the \<^verbatim>\<open>json=\<close> argument of a request is
  serialised from: Python's None, bool, int, float, str, list and dict with string keys.
  A dict is an association list in insertion order; lookup is \<^const>\<open>map_of\<close>.
\<close>

datatype json =
    JNull
  | JBool bool
  | JInt int
  | JFloat pyfloat
  | JString string
  | JArray "json list"
  | JObject "(string \<times> json) list"

datatype http_method = GET | POST | DELETE

record request =
  req_method :: http_method
  req_url :: string
  req_json :: "json option"

text \<open>
  A response as the client reads it: \<^verbatim>\<open>res.status_code\<close>, \<^verbatim>\<open>res.text\<close> and
  \<^verbatim>\<open>res.json()\<close>. The last is \<open>None\<close> when the body is not JSON, where
  \<^verbatim>\<open>res.json()\<close> raises a decoding error.
\<close>

record response =
  status_code :: int
  res_text :: string
  res_json :: "json option"

text \<open>
  Every exception an operation can end with. \<open>ApiError\<close> is the class of client.py
  (lines 19-25) with its two attributes \<^verbatim>\<open>status\<close> and \<^verbatim>\<open>message\<close>; the others are
  raised by the libraries or by Python itself and are propagated unchanged.
\<close>

datatype error =
    ApiError int string
  | ValidationError
  | JSONDecodeError
  | TypeError
  | RuntimeError
  | TransportError string

text \<open>
  The server and the network are a parameter: a request is answered by a response, or the
  transport fails.
\<close>

type_synonym transport = "request \<Rightarrow> error + response"

section \<open>The HTTP library's client object\<close>

text \<open>
  \<^verbatim>\<open>httpx.AsyncClient\<close> (library code, outside the repository) as far as client.py
  uses it. Its state starts \<open>UNOPENED\<close>, becomes \<open>OPENED\<close> at the first request and
  \<open>CLOSED\<close> at \<^verbatim>\<open>aclose()\<close>. \<^verbatim>\<open>aclose()\<close> releases the transport only when the
  state is not yet \<open>CLOSED\<close>; a request on a closed client raises RuntimeError before
  anything is sent. \<open>releases\<close> counts how often the transport was released. An
  error raised while a request is built or sent is a failure of the transport parameter.
\<close>

datatype ClientState = UNOPENED | OPENED | CLOSED

record AsyncClient =
  state :: ClientState
  releases :: nat

definition new_AsyncClient :: AsyncClient where
  "new_AsyncClient = \<lparr>state = UNOPENED, releases = 0\<rparr>"

definition aclose :: "AsyncClient \<Rightarrow> AsyncClient" where
  "aclose h =
     (if state h \<noteq> CLOSED then h\<lparr>state := CLOSED, releases := releases h + 1\<rparr> else h)"

definition send :: "transport \<Rightarrow> AsyncClient \<Rightarrow> request \<Rightarrow> (error + response) \<times> AsyncClient" where
  "send t h req =
     (if state h = CLOSED then (Inl RuntimeError, h) else (t req, h\<lparr>state := OPENED\<rparr>))"

text \<open>\<^verbatim>\<open>res.is_success\<close>: the status code is in the range 200 to 299.\<close>

definition is_success :: "response \<Rightarrow> bool" where
  "is_success res = (200 \<le> status_code res \<and> status_code res \<le> 299)"

text \<open>\<^verbatim>\<open>res.json()\<close>.\<close>

definition json_of :: "response \<Rightarrow> error + json" where
  "json_of res = (case res_json res of None \<Rightarrow> Inl JSONDecodeError | Some j \<Rightarrow> Inr j)"

section \<open>Entities (types.py)\<close>

text \<open>
  One record per model class. Field \<open>f\<close> of a class is named with a prefix for the
  class (\<open>kb_name\<close> is \<^verbatim>\<open>KnowledgeBase.name\<close>), since several classes share field
  names. \<^verbatim>\<open>str | None\<close> is \<open>string option\<close>, \<^verbatim>\<open>dict[str, Any]\<close> is an association
  list of JSON values.
\<close>

record ChatResponse =
  cr_session_id :: string
  cr_stream_url :: string

record Message =
  msg_role :: string
  msg_content :: string

record RunResponse =
  rr_id :: string
  rr_stream_url :: string

record KnowledgeBaseConfig =
  cfg_embedding_provider :: string
  cfg_embedding_model :: string
  cfg_vector_dimensions :: "int option"
  cfg_file_processor :: string
  cfg_chunk_strategy :: string

record KnowledgeBase =
  kb_id :: string
  kb_name :: string
  kb_description :: "string option"
  kb_config :: KnowledgeBaseConfig
  kb_created_at :: string
  kb_updated_at :: string

record CreateKnowledgeBaseRequest =
  ckb_name :: string
  ckb_description :: "string option"

record Document =
  doc_id :: string
  doc_kb_id :: string
  doc_filename :: string
  doc_mime_type :: "string option"
  doc_chunk_count :: int
  doc_status :: string
  doc_error_message :: "string option"

record SearchResult =
  sr_content :: string
  sr_score :: pyfloat
  sr_metadata :: "(string \<times> json) list"
  sr_document_id :: "string option"

record SearchResponse =
  sresp_results :: "SearchResult list"

record IngestResponse =
  ing_success :: bool
  ing_chunk_count :: int

section \<open>Validation (the model classes' \<^verbatim>\<open>model_validate\<close>)\<close>

text \<open>
  The validation library's validators for the annotations \<^verbatim>\<open>int\<close>, \<^verbatim>\<open>float\<close> and
  \<^verbatim>\<open>bool\<close> are library code with conversions of their own (a numeric string may be
  accepted as an int); they are a parameter of the development, so every theorem holds
  for whatever they accept. \<open>None\<close> is a rejected value.
\<close>

record scalars =
  validate_int :: "json \<Rightarrow> int option"
  validate_float :: "json \<Rightarrow> pyfloat option"
  validate_bool :: "json \<Rightarrow> bool option"

text \<open>The annotation \<^verbatim>\<open>str\<close> accepts a string and nothing else.\<close>

definition validate_str :: "json \<Rightarrow> string option" where
  "validate_str j = (case j of JString s \<Rightarrow> Some s | _ \<Rightarrow> None)"

text \<open>\<^verbatim>\<open>T | None\<close>: null is accepted as None, anything else goes to the validator of T.\<close>

definition nullable :: "(json \<Rightarrow> 'a option) \<Rightarrow> json \<Rightarrow> 'a option option" where
  "nullable v j = (case j of JNull \<Rightarrow> Some None | _ \<Rightarrow> map_option Some (v j))"

text \<open>\<^verbatim>\<open>dict[str, Any]\<close>: any object, its values unvalidated.\<close>

definition validate_dict :: "json \<Rightarrow> (string \<times> json) list option" where
  "validate_dict j = (case j of JObject kvs \<Rightarrow> Some kvs | _ \<Rightarrow> None)"

text \<open>\<^verbatim>\<open>list[T]\<close>: an array whose every element is accepted by the validator of T.\<close>

definition validate_list :: "(json \<Rightarrow> 'a option) \<Rightarrow> json \<Rightarrow> 'a list option" where
  "validate_list v j = (case j of JArray xs \<Rightarrow> those (map v xs) | _ \<Rightarrow> None)"

text \<open>A field without a default must be present; a field with a default may be missing.\<close>

definition required :: "(json \<Rightarrow> 'a option) \<Rightarrow> (string \<times> json) list \<Rightarrow> string \<Rightarrow> 'a option" where
  "required v kvs k = (case map_of kvs k of None \<Rightarrow> None | Some j \<Rightarrow> v j)"

definition with_default :: "(json \<Rightarrow> 'a option) \<Rightarrow> 'a \<Rightarrow> (string \<times> json) list \<Rightarrow> string \<Rightarrow> 'a option" where
  "with_default v d kvs k = (case map_of kvs k of None \<Rightarrow> Some d | Some j \<Rightarrow> v j)"

definition validate_ChatResponse :: "json \<Rightarrow> ChatResponse option" where
  "validate_ChatResponse j =
     (case j of
        JObject kvs \<Rightarrow> do {
          a \<leftarrow> required validate_str kvs ''session_id'';
          b \<leftarrow> required validate_str kvs ''stream_url'';
          Some \<lparr>cr_session_id = a, cr_stream_url = b\<rparr> }
      | _ \<Rightarrow> None)"

definition validate_Message :: "json \<Rightarrow> Message option" where
  "validate_Message j =
     (case j of
        JObject kvs \<Rightarrow> do {
          a \<leftarrow> required validate_str kvs ''role'';
          b \<leftarrow> required validate_str kvs ''content'';
          Some \<lparr>msg_role = a, msg_content = b\<rparr> }
      | _ \<Rightarrow> None)"

definition validate_RunResponse :: "json \<Rightarrow> RunResponse option" where
  "validate_RunResponse j =
     (case j of
        JObject kvs \<Rightarrow> do {
          a \<leftarrow> required validate_str kvs ''id'';
          b \<leftarrow> required validate_str kvs ''stream_url'';
          Some \<lparr>rr_id = a, rr_stream_url = b\<rparr> }
      | _ \<Rightarrow> None)"

text \<open>\<^verbatim>\<open>KnowledgeBaseConfig()\<close>: every field at its declared default.\<close>

definition default_KnowledgeBaseConfig :: KnowledgeBaseConfig where
  "default_KnowledgeBaseConfig =
     \<lparr>cfg_embedding_provider = '''', cfg_embedding_model = '''',
      cfg_vector_dimensions = None, cfg_file_processor = '''', cfg_chunk_strategy = ''''\<rparr>"

definition validate_KnowledgeBaseConfig :: "scalars \<Rightarrow> json \<Rightarrow> KnowledgeBaseConfig option" where
  "validate_KnowledgeBaseConfig S j =
     (case j of
        JObject kvs \<Rightarrow> do {
          a \<leftarrow> with_default validate_str '''' kvs ''embedding_provider'';
          b \<leftarrow> with_default validate_str '''' kvs ''embedding_model'';
          c \<leftarrow> with_default (nullable (validate_int S)) None kvs ''vector_dimensions'';
          d \<leftarrow> with_default validate_str '''' kvs ''file_processor'';
          e \<leftarrow> with_default validate_str '''' kvs ''chunk_strategy'';
          Some \<lparr>cfg_embedding_provider = a, cfg_embedding_model = b,
                cfg_vector_dimensions = c, cfg_file_processor = d, cfg_chunk_strategy = e\<rparr> }
      | _ \<Rightarrow> None)"

definition validate_KnowledgeBase :: "scalars \<Rightarrow> json \<Rightarrow> KnowledgeBase option" where
  "validate_KnowledgeBase S j =
     (case j of
        JObject kvs \<Rightarrow> do {
          a \<leftarrow> required validate_str kvs ''id'';
          b \<leftarrow> required validate_str kvs ''name'';
          c \<leftarrow> with_default (nullable validate_str) None kvs ''description'';
          d \<leftarrow> with_default (validate_KnowledgeBaseConfig S) default_KnowledgeBaseConfig
                 kvs ''config'';
          e \<leftarrow> required validate_str kvs ''created_at'';
          f \<leftarrow> required validate_str kvs ''updated_at'';
          Some \<lparr>kb_id = a, kb_name = b, kb_description = c, kb_config = d,
                kb_created_at = e, kb_updated_at = f\<rparr> }
      | _ \<Rightarrow> None)"

definition validate_Document :: "scalars \<Rightarrow> json \<Rightarrow> Document option" where
  "validate_Document S j =
     (case j of
        JObject kvs \<Rightarrow> do {
          a \<leftarrow> required validate_str kvs ''id'';
          b \<leftarrow> required validate_str kvs ''kb_id'';
          c \<leftarrow> required validate_str kvs ''filename'';
          d \<leftarrow> with_default (nullable validate_str) None kvs ''mime_type'';
          e \<leftarrow> required (validate_int S) kvs ''chunk_count'';
          f \<leftarrow> required validate_str kvs ''status'';
          g \<leftarrow> with_default (nullable validate_str) None kvs ''error_message'';
          Some \<lparr>doc_id = a, doc_kb_id = b, doc_filename = c, doc_mime_type = d,
                doc_chunk_count = e, doc_status = f, doc_error_message = g\<rparr> }
      | _ \<Rightarrow> None)"

definition validate_SearchResult :: "scalars \<Rightarrow> json \<Rightarrow> SearchResult option" where
  "validate_SearchResult S j =
     (case j of
        JObject kvs \<Rightarrow> do {
          a \<leftarrow> required validate_str kvs ''content'';
          b \<leftarrow> required (validate_float S) kvs ''score'';
          c \<leftarrow> required validate_dict kvs ''metadata'';
          d \<leftarrow> with_default (nullable validate_str) None kvs ''document_id'';
          Some \<lparr>sr_content = a, sr_score = b, sr_metadata = c, sr_document_id = d\<rparr> }
      | _ \<Rightarrow> None)"

definition validate_SearchResponse :: "scalars \<Rightarrow> json \<Rightarrow> SearchResponse option" where
  "validate_SearchResponse S j =
     (case j of
        JObject kvs \<Rightarrow> do {
          a \<leftarrow> required (validate_list (validate_SearchResult S)) kvs ''results'';
          Some \<lparr>sresp_results = a\<rparr> }
      | _ \<Rightarrow> None)"

definition validate_IngestResponse :: "scalars \<Rightarrow> json \<Rightarrow> IngestResponse option" where
  "validate_IngestResponse S j =
     (case j of
        JObject kvs \<Rightarrow> do {
          a \<leftarrow> required (validate_bool S) kvs ''success'';
          b \<leftarrow> required (validate_int S) kvs ''chunk_count'';
          Some \<lparr>ing_success = a, ing_chunk_count = b\<rparr> }
      | _ \<Rightarrow> None)"

text \<open>\<^verbatim>\<open>Cls.model_validate(obj)\<close>: the validated object, or ValidationError raised.\<close>

definition model_validate :: "(json \<Rightarrow> 'a option) \<Rightarrow> json \<Rightarrow> error + 'a" where
  "model_validate v j = (case v j of None \<Rightarrow> Inl ValidationError | Some x \<Rightarrow> Inr x)"

text \<open>
  \<^verbatim>\<open>request.model_dump(exclude_none=True)\<close> for CreateKnowledgeBaseRequest: the fields
  in declaration order, those whose value is None left out.
\<close>

definition model_dump :: "CreateKnowledgeBaseRequest \<Rightarrow> (string \<times> json) list" where
  "model_dump r =
     [(''name'', JString (ckb_name r)),
      (''description'', case ckb_description r of None \<Rightarrow> JNull | Some d \<Rightarrow> JString d)]"

definition exclude_none :: "(string \<times> json) list \<Rightarrow> (string \<times> json) list" where
  "exclude_none kvs = filter (\<lambda>kv. snd kv \<noteq> JNull) kvs"

section \<open>The client (client.py)\<close>

text \<open>\<^verbatim>\<open>s.rstrip(chars)\<close>: the trailing characters that occur in \<open>chars\<close> removed.\<close>

definition rstrip :: "string \<Rightarrow> string \<Rightarrow> string" where
  "rstrip chars s = rev (dropWhile (\<lambda>x. x \<in> set chars) (rev s))"

record Client =
  base_url :: string
  http :: AsyncClient

text \<open>\<^verbatim>\<open>__init__\<close>, \<^verbatim>\<open>__aenter__\<close>, \<^verbatim>\<open>__aexit__\<close> and \<^verbatim>\<open>close\<close> (lines 37-54).\<close>

definition init :: "string \<Rightarrow> Client" where
  "init b = \<lparr>base_url = rstrip ''/'' b, http = new_AsyncClient\<rparr>"

definition aenter :: "Client \<Rightarrow> Client" where
  "aenter c = c"

definition aexit :: "Client \<Rightarrow> Client" where
  "aexit c = c\<lparr>http := aclose (http c)\<rparr>"

definition close :: "Client \<Rightarrow> Client" where
  "close c = c\<lparr>http := aclose (http c)\<rparr>"

text \<open>\<^verbatim>\<open>_check_response\<close> (lines 249-252).\<close>

definition check_response :: "response \<Rightarrow> error + unit" where
  "check_response res =
     (if \<not> is_success res then Inl (ApiError (status_code res) (res_text res)) else Inr ())"

text \<open>An exception ends the operation: the rest runs only on a value.\<close>

definition bind_err :: "error + 'a \<Rightarrow> ('a \<Rightarrow> error + 'b) \<Rightarrow> error + 'b" where
  "bind_err r f = (case r of Inl e \<Rightarrow> Inl e | Inr x \<Rightarrow> f x)"

text \<open>
  The first two statements of every network operation:
  \<^verbatim>\<open>res = await self._http.<verb>(url, ...)\<close> and \<^verbatim>\<open>self._check_response(res)\<close>.
\<close>

definition checked :: "transport \<Rightarrow> Client \<Rightarrow> request \<Rightarrow> (error + response) \<times> Client" where
  "checked t c req =
     (case send t (http c) req of
        (r, h) \<Rightarrow> (bind_err r (\<lambda>res. bind_err (check_response res) (\<lambda>_. Inr res)),
                   c\<lparr>http := h\<rparr>))"

text \<open>
  \<^verbatim>\<open>[Cls.model_validate(x) for x in res.json()]\<close>. Iterating a list gives its
  elements, a dict its keys, a string its characters; None, a bool or a number is not
  iterable. The comprehension stops at the first element that is rejected. (A character
  here is a byte; no statement below depends on how a string is cut into characters.)
\<close>

definition py_iter :: "json \<Rightarrow> error + json list" where
  "py_iter j =
     (case j of
        JArray xs \<Rightarrow> Inr xs
      | JObject kvs \<Rightarrow> Inr (map (\<lambda>kv. JString (fst kv)) kvs)
      | JString s \<Rightarrow> Inr (map (\<lambda>ch. JString [ch]) s)
      | _ \<Rightarrow> Inl TypeError)"

fun list_comp :: "(json \<Rightarrow> error + 'a) \<Rightarrow> json list \<Rightarrow> error + 'a list" where
  "list_comp f [] = Inr []"
| "list_comp f (x # xs) =
     (case f x of
        Inl e \<Rightarrow> Inl e
      | Inr y \<Rightarrow> (case list_comp f xs of Inl e \<Rightarrow> Inl e | Inr ys \<Rightarrow> Inr (y # ys)))"

definition validate_each :: "(json \<Rightarrow> 'a option) \<Rightarrow> json \<Rightarrow> error + 'a list" where
  "validate_each v j = bind_err (py_iter j) (list_comp (model_validate v))"

text \<open>An optional argument that is None is written into the dict literal as it is.\<close>

definition json_str_opt :: "string option \<Rightarrow> json" where
  "json_str_opt x = (case x of None \<Rightarrow> JNull | Some s \<Rightarrow> JString s)"

definition json_dict_opt :: "(string \<times> json) list option \<Rightarrow> json" where
  "json_dict_opt x = (case x of None \<Rightarrow> JNull | Some kvs \<Rightarrow> JObject kvs)"

subsection \<open>Chat API\<close>

definition chat_request :: "Client \<Rightarrow> string \<Rightarrow> string option \<Rightarrow> request" where
  "chat_request c message session_id =
     \<lparr>req_method = POST, req_url = base_url c @ ''/api/chat'',
      req_json = Some (JObject [(''message'', JString message),
                                (''session_id'', json_str_opt session_id)])\<rparr>"

definition chat ::
  "transport \<Rightarrow> Client \<Rightarrow> string \<Rightarrow> string option \<Rightarrow> (error + ChatResponse) \<times> Client" where
  "chat t c message session_id =
     (case checked t c (chat_request c message session_id) of
        (r, c') \<Rightarrow>
          (bind_err r (\<lambda>res. bind_err (json_of res) (model_validate validate_ChatResponse)), c'))"

definition get_messages_request :: "Client \<Rightarrow> string \<Rightarrow> request" where
  "get_messages_request c session_id =
     \<lparr>req_method = GET, req_url = base_url c @ ''/api/sessions/'' @ session_id @ ''/messages'',
      req_json = None\<rparr>"

definition get_messages ::
  "transport \<Rightarrow> Client \<Rightarrow> string \<Rightarrow> (error + Message list) \<times> Client" where
  "get_messages t c session_id =
     (case checked t c (get_messages_request c session_id) of
        (r, c') \<Rightarrow>
          (bind_err r (\<lambda>res. bind_err (json_of res) (validate_each validate_Message)), c'))"

subsection \<open>Runs API\<close>

definition create_run_request ::
  "Client \<Rightarrow> string \<Rightarrow> (string \<times> json) list option \<Rightarrow> request" where
  "create_run_request c input_text context =
     \<lparr>req_method = POST, req_url = base_url c @ ''/api/runs'',
      req_json = Some (JObject [(''input'', JString input_text),
                                (''context'', json_dict_opt context)])\<rparr>"

definition create_run ::
  "transport \<Rightarrow> Client \<Rightarrow> string \<Rightarrow> (string \<times> json) list option
     \<Rightarrow> (error + RunResponse) \<times> Client" where
  "create_run t c input_text context =
     (case checked t c (create_run_request c input_text context) of
        (r, c') \<Rightarrow>
          (bind_err r (\<lambda>res. bind_err (json_of res) (model_validate validate_RunResponse)), c'))"

definition run_stream_url :: "Client \<Rightarrow> string \<Rightarrow> string" where
  "run_stream_url c run_id = base_url c @ ''/api/runs/'' @ run_id @ ''/stream''"

subsection \<open>Knowledge base API\<close>

definition list_knowledge_bases_request :: "Client \<Rightarrow> request" where
  "list_knowledge_bases_request c =
     \<lparr>req_method = GET, req_url = base_url c @ ''/api/knowledge'', req_json = None\<rparr>"

definition list_knowledge_bases ::
  "scalars \<Rightarrow> transport \<Rightarrow> Client \<Rightarrow> (error + KnowledgeBase list) \<times> Client" where
  "list_knowledge_bases S t c =
     (case checked t c (list_knowledge_bases_request c) of
        (r, c') \<Rightarrow>
          (bind_err r (\<lambda>res. bind_err (json_of res) (validate_each (validate_KnowledgeBase S))),
           c'))"

definition create_knowledge_base_request ::
  "Client \<Rightarrow> CreateKnowledgeBaseRequest \<Rightarrow> request" where
  "create_knowledge_base_request c request =
     \<lparr>req_method = POST, req_url = base_url c @ ''/api/knowledge'',
      req_json = Some (JObject (exclude_none (model_dump request)))\<rparr>"

definition create_knowledge_base ::
  "scalars \<Rightarrow> transport \<Rightarrow> Client \<Rightarrow> CreateKnowledgeBaseRequest
     \<Rightarrow> (error + KnowledgeBase) \<times> Client" where
  "create_knowledge_base S t c request =
     (case checked t c (create_knowledge_base_request c request) of
        (r, c') \<Rightarrow>
          (bind_err r (\<lambda>res. bind_err (json_of res) (model_validate (validate_KnowledgeBase S))),
           c'))"

definition get_knowledge_base_request :: "Client \<Rightarrow> string \<Rightarrow> request" where
  "get_knowledge_base_request c kb =
     \<lparr>req_method = GET, req_url = base_url c @ ''/api/knowledge/'' @ kb, req_json = None\<rparr>"

definition get_knowledge_base ::
  "scalars \<Rightarrow> transport \<Rightarrow> Client \<Rightarrow> string \<Rightarrow> (error + KnowledgeBase) \<times> Client" where
  "get_knowledge_base S t c kb =
     (case checked t c (get_knowledge_base_request c kb) of
        (r, c') \<Rightarrow>
          (bind_err r (\<lambda>res. bind_err (json_of res) (model_validate (validate_KnowledgeBase S))),
           c'))"

definition delete_knowledge_base_request :: "Client \<Rightarrow> string \<Rightarrow> request" where
  "delete_knowledge_base_request c kb =
     \<lparr>req_method = DELETE, req_url = base_url c @ ''/api/knowledge/'' @ kb, req_json = None\<rparr>"

definition delete_knowledge_base ::
  "transport \<Rightarrow> Client \<Rightarrow> string \<Rightarrow> (error + unit) \<times> Client" where
  "delete_knowledge_base t c kb =
     (case checked t c (delete_knowledge_base_request c kb) of
        (r, c') \<Rightarrow> (bind_err r (\<lambda>res. Inr ()), c'))"

definition list_documents_request :: "Client \<Rightarrow> string \<Rightarrow> request" where
  "list_documents_request c kb =
     \<lparr>req_method = GET, req_url = base_url c @ ''/api/knowledge/'' @ kb @ ''/documents'',
      req_json = None\<rparr>"

definition list_documents ::
  "scalars \<Rightarrow> transport \<Rightarrow> Client \<Rightarrow> string \<Rightarrow> (error + Document list) \<times> Client" where
  "list_documents S t c kb =
     (case checked t c (list_documents_request c kb) of
        (r, c') \<Rightarrow>
          (bind_err r (\<lambda>res. bind_err (json_of res) (validate_each (validate_Document S))), c'))"

text \<open>
  The float literal \<^verbatim>\<open>0.7\<close>. An argument of \<^verbatim>\<open>search\<close> that the caller leaves out
  is \<open>None\<close> here and takes the default of the signature (lines 201-202).
\<close>

definition default_limit :: int where
  "default_limit = 5"

definition default_min_score :: pyfloat where
  "default_min_score = PyFloat (7 / 10)"

definition search_request ::
  "Client \<Rightarrow> string \<Rightarrow> string \<Rightarrow> int option \<Rightarrow> pyfloat option \<Rightarrow> request" where
  "search_request c kb query limit min_score =
     \<lparr>req_method = POST, req_url = base_url c @ ''/api/knowledge/'' @ kb @ ''/search'',
      req_json = Some (JObject
        [(''query'', JString query),
         (''limit'', JInt (case limit of None \<Rightarrow> default_limit | Some n \<Rightarrow> n)),
         (''min_score'', JFloat (case min_score of None \<Rightarrow> default_min_score | Some x \<Rightarrow> x))])\<rparr>"

definition search ::
  "scalars \<Rightarrow> transport \<Rightarrow> Client \<Rightarrow> string \<Rightarrow> string \<Rightarrow> int option \<Rightarrow> pyfloat option
     \<Rightarrow> (error + SearchResponse) \<times> Client" where
  "search S t c kb query limit min_score =
     (case checked t c (search_request c kb query limit min_score) of
        (r, c') \<Rightarrow>
          (bind_err r (\<lambda>res. bind_err (json_of res) (model_validate (validate_SearchResponse S))),
           c'))"

subsection \<open>Ingest API\<close>

definition ingest_request ::
  "Client \<Rightarrow> string \<Rightarrow> (string \<times> json) list option \<Rightarrow> request" where
  "ingest_request c content metadata =
     \<lparr>req_method = POST, req_url = base_url c @ ''/api/ingest'',
      req_json = Some (JObject [(''content'', JString content),
                                (''metadata'', json_dict_opt metadata)])\<rparr>"

definition ingest ::
  "scalars \<Rightarrow> transport \<Rightarrow> Client \<Rightarrow> string \<Rightarrow> (string \<times> json) list option
     \<Rightarrow> (error + IngestResponse) \<times> Client" where
  "ingest S t c content metadata =
     (case checked t c (ingest_request c content metadata) of
        (r, c') \<Rightarrow>
          (bind_err r (\<lambda>res. bind_err (json_of res) (model_validate (validate_IngestResponse S))),
           c'))"

section \<open>Calls and lifetimes\<close>

text \<open>
  The ten network operations as data, so that a statement can range over all of them:
  a call, the request it sends, and what it returns.
\<close>

datatype call =
    Chat string "string option"
  | GetMessages string
  | CreateRun string "(string \<times> json) list option"
  | ListKnowledgeBases
  | CreateKnowledgeBase CreateKnowledgeBaseRequest
  | GetKnowledgeBase string
  | DeleteKnowledgeBase string
  | ListDocuments string
  | Search string string "int option" "pyfloat option"
  | Ingest string "(string \<times> json) list option"

datatype result =
    RChat ChatResponse
  | RMessages "Message list"
  | RRun RunResponse
  | RKnowledgeBases "KnowledgeBase list"
  | RKnowledgeBase KnowledgeBase
  | RNone
  | RDocuments "Document list"
  | RSearch SearchResponse
  | RIngest IngestResponse

fun request_of :: "Client \<Rightarrow> call \<Rightarrow> request" where
  "request_of c (Chat m s) = chat_request c m s"
| "request_of c (GetMessages s) = get_messages_request c s"
| "request_of c (CreateRun i x) = create_run_request c i x"
| "request_of c ListKnowledgeBases = list_knowledge_bases_request c"
| "request_of c (CreateKnowledgeBase r) = create_knowledge_base_request c r"
| "request_of c (GetKnowledgeBase k) = get_knowledge_base_request c k"
| "request_of c (DeleteKnowledgeBase k) = delete_knowledge_base_request c k"
| "request_of c (ListDocuments k) = list_documents_request c k"
| "request_of c (Search k q l m) = search_request c k q l m"
| "request_of c (Ingest x m) = ingest_request c x m"

definition tagged :: "('a \<Rightarrow> result) \<Rightarrow> (error + 'a) \<times> Client \<Rightarrow> (error + result) \<times> Client" where
  "tagged tag rc = (map_sum (\<lambda>e. e) tag (fst rc), snd rc)"

fun perform :: "scalars \<Rightarrow> transport \<Rightarrow> Client \<Rightarrow> call \<Rightarrow> (error + result) \<times> Client" where
  "perform S t c (Chat m s) = tagged RChat (chat t c m s)"
| "perform S t c (GetMessages s) = tagged RMessages (get_messages t c s)"
| "perform S t c (CreateRun i x) = tagged RRun (create_run t c i x)"
| "perform S t c ListKnowledgeBases = tagged RKnowledgeBases (list_knowledge_bases S t c)"
| "perform S t c (CreateKnowledgeBase r) = tagged RKnowledgeBase (create_knowledge_base S t c r)"
| "perform S t c (GetKnowledgeBase k) = tagged RKnowledgeBase (get_knowledge_base S t c k)"
| "perform S t c (DeleteKnowledgeBase k) = tagged (\<lambda>_. RNone) (delete_knowledge_base t c k)"
| "perform S t c (ListDocuments k) = tagged RDocuments (list_documents S t c k)"
| "perform S t c (Search k q l m) = tagged RSearch (search S t c k q l m)"
| "perform S t c (Ingest x m) = tagged RIngest (ingest S t c x m)"

text \<open>
  What a caller does with a client over its lifetime: network calls and explicit
  \<^verbatim>\<open>close()\<close>, in order. The first call that raises ends the block; \<open>run\<close> returns the
  exception, if any, and the client as it is then.
\<close>

datatype action = Call call | Close

fun run :: "scalars \<Rightarrow> transport \<Rightarrow> Client \<Rightarrow> action list \<Rightarrow> error option \<times> Client" where
  "run S t c [] = (None, c)"
| "run S t c (Close # as) = run S t (close c) as"
| "run S t c (Call k # as) =
     (case perform S t c k of
        (Inl e, c') \<Rightarrow> (Some e, c')
      | (Inr _, c') \<Rightarrow> run S t c' as)"

text \<open>
  \<^verbatim>\<open>async with Client(b) as client: <block>\<close>: \<^verbatim>\<open>__aexit__\<close> runs when the block
  ends, normally or by an exception, and the exception (which \<^verbatim>\<open>__aexit__\<close> does
  not suppress) is raised again after it.
\<close>

definition async_with :: "scalars \<Rightarrow> transport \<Rightarrow> string \<Rightarrow> action list \<Rightarrow> error option \<times> Client" where
  "async_with S t b as =
     (case run S t (aenter (init b)) as of (e, c) \<Rightarrow> (e, aexit c))"

section \<open>Notions used in the statements\<close>

text \<open>The key-value pairs of the JSON object a request carries; none when it has no body.\<close>

definition body_fields :: "request \<Rightarrow> (string \<times> json) list" where
  "body_fields req = (case req_json req of Some (JObject kvs) \<Rightarrow> kvs | _ \<Rightarrow> [])"

text \<open>
  The invariant of the HTTP library's client object: the transport has been released
  once if the client is closed and never otherwise.
\<close>

definition released_once :: "AsyncClient \<Rightarrow> bool" where
  "released_once h = (releases h = (if state h = CLOSED then 1 else 0))"

text \<open>
  For concrete examples: a server that answers every request with the same response, and
  validators that accept exactly the JSON type of their annotation.
\<close>

definition answer :: "int \<Rightarrow> string \<Rightarrow> json option \<Rightarrow> transport" where
  "answer code body j = (\<lambda>req. Inr \<lparr>status_code = code, res_text = body, res_json = j\<rparr>)"

definition exact_scalars :: scalars where
  "exact_scalars =
     \<lparr>validate_int = (\<lambda>j. case j of JInt n \<Rightarrow> Some n | _ \<Rightarrow> None),
      validate_float = (\<lambda>j. case j of JFloat x \<Rightarrow> Some x | _ \<Rightarrow> None),
      validate_bool = (\<lambda>j. case j of JBool b \<Rightarrow> Some b | _ \<Rightarrow> None)\<rparr>"

section \<open>Error translation\<close>

lemma checked_fst:
  assumes "state (http c) \<noteq> CLOSED" and "t req = Inr res"
  shows "fst (checked t c req) =
           (if is_success res then Inr res else Inl (ApiError (status_code res) (res_text res)))"
  using assms by (simp add: checked_def send_def bind_err_def check_response_def)

lemma list_comp_no_ApiError: "list_comp (model_validate v) xs \<noteq> Inl (ApiError s m)"
  by (induction xs) (auto simp: model_validate_def split: option.splits sum.splits)

lemma validate_each_no_ApiError: "validate_each v j \<noteq> Inl (ApiError s m)"
  by (cases j) (simp_all add: validate_each_def py_iter_def bind_err_def list_comp_no_ApiError)

lemma validate_one_no_ApiError:
  "bind_err (json_of res) (model_validate v) \<noteq> Inl (ApiError s m)"
  by (simp add: bind_err_def json_of_def model_validate_def split: option.splits)

lemma validate_all_no_ApiError:
  "bind_err (json_of res) (validate_each v) \<noteq> Inl (ApiError s m)"
  by (simp add: bind_err_def json_of_def validate_each_no_ApiError split: option.splits)

lemma perform_failure:
  assumes "state (http c) \<noteq> CLOSED" and "t (request_of c k) = Inr res" and "\<not> is_success res"
  shows "fst (perform S t c k) = Inl (ApiError (status_code res) (res_text res))"
proof -
  have f: "fst (checked t c (request_of c k)) = Inl (ApiError (status_code res) (res_text res))"
    using assms by (simp add: checked_fst)
  show ?thesis
    using f
    by (cases k)
       (simp_all add: tagged_def chat_def get_messages_def create_run_def
          list_knowledge_bases_def create_knowledge_base_def get_knowledge_base_def
          delete_knowledge_base_def list_documents_def search_def ingest_def
          bind_err_def case_prod_beta)
qed

lemma perform_success:
  assumes "state (http c) \<noteq> CLOSED" and "t (request_of c k) = Inr res" and "is_success res"
  shows "fst (perform S t c k) \<noteq> Inl (ApiError s m)"
proof -
  have f: "fst (checked t c (request_of c k)) = Inr res"
    using assms by (simp add: checked_fst)
  have g: "\<And>(tag :: 'a \<Rightarrow> result) r. r \<noteq> Inl (ApiError s m) \<Longrightarrow> map_sum (\<lambda>e. e) tag r \<noteq> Inl (ApiError s m)"
    by (case_tac r) auto
  show ?thesis
    using f
    by (cases k)
       (simp_all add: tagged_def chat_def get_messages_def create_run_def
          list_knowledge_bases_def create_knowledge_base_def get_knowledge_base_def
          delete_knowledge_base_def list_documents_def search_def ingest_def
          validate_one_no_ApiError validate_all_no_ApiError
          case_prod_beta g bind_err_def[of "Inr res"])
qed

text \<open>
  C1. A network operation on an open client whose request is answered with response
  \<open>res\<close>: when the status of \<open>res\<close> is outside 200..299 the operation raises
  ApiError with exactly the status code and the body text of \<open>res\<close>; when the status
  is inside that range no ApiError is raised, whatever else happens.
\<close>

theorem api_error_iff_not_success:
  assumes "state (http c) \<noteq> CLOSED" and "t (request_of c k) = Inr res"
  shows "(\<not> is_success res \<longrightarrow>
            fst (perform S t c k) = Inl (ApiError (status_code res) (res_text res))) \<and>
         (is_success res \<longrightarrow> (\<forall>s m. fst (perform S t c k) \<noteq> Inl (ApiError s m)))"
  using assms perform_failure [of c t k res S] perform_success [of c t k res S] by blast

theorem api_error_iff_not_success_witness:
  "state (http (init ''http://localhost:3000'')) \<noteq> CLOSED \<and>
   \<not> is_success \<lparr>status_code = 404, res_text = ''no such knowledge base'', res_json = None\<rparr> \<and>
   fst (perform exact_scalars (answer 404 ''no such knowledge base'' None)
          (init ''http://localhost:3000'') (GetKnowledgeBase ''kb1''))
     = Inl (ApiError 404 ''no such knowledge base'') \<and>
   is_success \<lparr>status_code = 204, res_text = [], res_json = None\<rparr> \<and>
   (\<forall>s m. fst (perform exact_scalars (answer 204 [] None)
          (init ''http://localhost:3000'') (DeleteKnowledgeBase ''kb1'')) \<noteq> Inl (ApiError s m))"
proof -
  let ?c = "init ''http://localhost:3000''"
  have o: "state (http ?c) \<noteq> CLOSED"
    by (simp add: init_def new_AsyncClient_def)
  have a: "answer 404 ''no such knowledge base'' None (request_of ?c (GetKnowledgeBase ''kb1''))
             = Inr \<lparr>status_code = 404, res_text = ''no such knowledge base'', res_json = None\<rparr>"
    by (simp add: answer_def)
  have b: "answer 204 [] None (request_of ?c (DeleteKnowledgeBase ''kb1''))
             = Inr \<lparr>status_code = 204, res_text = [], res_json = None\<rparr>"
    by (simp add: answer_def)
  show ?thesis
    using o
      api_error_iff_not_success [of ?c "answer 404 ''no such knowledge base'' None"
        "GetKnowledgeBase ''kb1''" _ exact_scalars, OF o a]
      api_error_iff_not_success [of ?c "answer 204 [] None"
        "DeleteKnowledgeBase ''kb1''" _ exact_scalars, OF o b]
    by (simp add: is_success_def)
qed

section \<open>Request bodies\<close>

text \<open>
  C2, as stated, fails: \<^verbatim>\<open>chat\<close> writes \<^verbatim>\<open>"session_id": session_id\<close> into the dict
  literal it sends (line 74), so with no session id the key is in the body, bound to null.
\<close>

theorem chat_session_id_absent_counterexample:
  "map_of (body_fields (chat_request (init ''http://localhost:3000'') ''Hello!'' None))
     ''session_id'' \<noteq> None"
  by (simp add: body_fields_def chat_request_def json_str_opt_def)

text \<open>
  C2, amended. When the caller leaves out the optional argument of \<^verbatim>\<open>chat\<close>,
  \<^verbatim>\<open>create_run\<close> or \<^verbatim>\<open>ingest\<close>, the request body still has the key
  (\<open>session_id\<close>, \<open>context\<close>, \<open>metadata\<close>) and its value is null.
\<close>

theorem optional_argument_sent_as_null:
  "map_of (body_fields (chat_request c message None)) ''session_id'' = Some JNull \<and>
   map_of (body_fields (create_run_request c input_text None)) ''context'' = Some JNull \<and>
   map_of (body_fields (ingest_request c content None)) ''metadata'' = Some JNull"
  by (simp add: body_fields_def chat_request_def create_run_request_def ingest_request_def
        json_str_opt_def json_dict_opt_def)

text \<open>
  C3. The body \<^verbatim>\<open>create_knowledge_base\<close> sends always binds \<open>name\<close> to the
  request's name; it binds \<open>description\<close> exactly when the request has one; no value
  in it is null; it has no other key. Without a description the body is the single pair
  for \<open>name\<close>.
\<close>

theorem create_knowledge_base_omits_none:
  "map_of (body_fields (create_knowledge_base_request c r)) ''name'' = Some (JString (ckb_name r)) \<and>
   map_of (body_fields (create_knowledge_base_request c r)) ''description'' =
     map_option JString (ckb_description r) \<and>
   JNull \<notin> snd ` set (body_fields (create_knowledge_base_request c r)) \<and>
   fst ` set (body_fields (create_knowledge_base_request c r)) =
     {''name''} \<union> (case ckb_description r of None \<Rightarrow> {} | Some d \<Rightarrow> {''description''}) \<and>
   body_fields (create_knowledge_base_request c \<lparr>ckb_name = n, ckb_description = None\<rparr>) =
     [(''name'', JString n)]"
  by (cases "ckb_description r")
     (auto simp add: body_fields_def create_knowledge_base_request_def model_dump_def
        exclude_none_def)

text \<open>
  C5. \<^verbatim>\<open>search\<close> called with a knowledge-base id and a query only sends the query,
  \<open>limit\<close> 5 and \<open>min_score\<close> 0.7 to the search address of that knowledge base, and
  behaves as the call that passes 5 and 0.7 explicitly.
\<close>

theorem search_default_arguments:
  "req_json (search_request c kb query None None) =
     Some (JObject [(''query'', JString query), (''limit'', JInt 5),
                    (''min_score'', JFloat (PyFloat (7 / 10)))]) \<and>
   req_method (search_request c kb query None None) = POST \<and>
   req_url (search_request c kb query None None) =
     base_url c @ ''/api/knowledge/'' @ kb @ ''/search'' \<and>
   search S t c kb query None None = search S t c kb query (Some 5) (Some (PyFloat (7 / 10)))"
  by (simp add: search_def search_request_def default_limit_def default_min_score_def)

section \<open>Addresses\<close>

lemma rstrip_no_trailing: "rstrip chars s \<noteq> p @ [x] \<or> x \<notin> set chars"
proof (cases "dropWhile (\<lambda>x. x \<in> set chars) (rev s)")
  case Nil
  show ?thesis unfolding rstrip_def Nil by simp
next
  case (Cons y ys)
  have "y \<notin> set chars"
    using hd_dropWhile [of "\<lambda>x. x \<in> set chars" "rev s"] unfolding Cons by simp
  then show ?thesis unfolding rstrip_def Cons by auto
qed

lemma request_of_url: "\<exists>path. req_url (request_of c k) = base_url c @ path"
  by (cases k)
     (simp_all add: chat_request_def get_messages_request_def create_run_request_def
        list_knowledge_bases_request_def create_knowledge_base_request_def
        get_knowledge_base_request_def delete_knowledge_base_request_def
        list_documents_request_def search_request_def ingest_request_def)

lemma checked_base_url: "base_url (snd (checked t c req)) = base_url c"
  by (simp add: checked_def case_prod_beta)

lemma perform_base_url: "base_url (snd (perform S t c k)) = base_url c"
  by (cases k)
     (simp_all add: tagged_def chat_def get_messages_def create_run_def
        list_knowledge_bases_def create_knowledge_base_def get_knowledge_base_def
        delete_knowledge_base_def list_documents_def search_def ingest_def
        case_prod_beta checked_base_url)

lemma run_base_url: "base_url (snd (run S t c as)) = base_url c"
proof (induction as arbitrary: c)
  case Nil
  show ?case by simp
next
  case (Cons a as)
  show ?case
  proof (cases a)
    case (Call k)
    obtain r c' where p: "perform S t c k = (r, c')" by (cases "perform S t c k")
    then have "base_url c' = base_url c" using perform_base_url [of S t c k] by simp
    with p Call Cons.IH [of c'] show ?thesis by (cases r) simp_all
  next
    case Close
    with Cons.IH [of "close c"] show ?thesis by (simp add: close_def)
  qed
qed

text \<open>
  C4. \<^verbatim>\<open>run_stream_url\<close> returns the stored base address followed by
  \<open>/api/runs/\<close>, the run id and \<open>/stream\<close>. It takes no transport and returns no
  client, so it sends nothing; its result does not depend on the connection object.
\<close>

theorem run_stream_url_composition:
  "run_stream_url c r = base_url c @ ''/api/runs/'' @ r @ ''/stream'' \<and>
   run_stream_url c ''abc'' = base_url c @ ''/api/runs/abc/stream'' \<and>
   run_stream_url (c\<lparr>http := h\<rparr>) r = run_stream_url c r"
  by (simp add: run_stream_url_def)

text \<open>
  C7. A client built from \<open>b\<close> stores \<open>b\<close> without its trailing slashes, so the stored
  address does not end in a slash; after any sequence of calls the address of every
  request and the result of \<^verbatim>\<open>run_stream_url\<close> start with that stored address.
\<close>

theorem init_strips_trailing_slash:
  "base_url (init b) = rstrip ''/'' b \<and>
   (\<nexists>p. base_url (init b) = p @ ''/'') \<and>
   (\<exists>path. req_url (request_of (snd (run S t (init b) as)) k) = rstrip ''/'' b @ path) \<and>
   run_stream_url (snd (run S t (init b) as)) r = rstrip ''/'' b @ ''/api/runs/'' @ r @ ''/stream''"
proof -
  have b: "base_url (init b) = rstrip ''/'' b" by (simp add: init_def)
  have n: "\<nexists>p. base_url (init b) = p @ ''/''"
    using rstrip_no_trailing [of "''/''" b _ "CHR ''/''"] by (simp add: b)
  have u: "base_url (snd (run S t (init b) as)) = rstrip ''/'' b"
    by (simp add: run_base_url b)
  show ?thesis
    using b n u request_of_url [of "snd (run S t (init b) as)" k]
    by (simp add: run_stream_url_def)
qed

section \<open>Responses\<close>

text \<open>
  On an array the comprehension of the list operations accepts and rejects exactly what
  the schema \<^verbatim>\<open>list[T]\<close> does.
\<close>

lemma list_comp_those:
  "list_comp (model_validate v) xs =
     (case those (map v xs) of None \<Rightarrow> Inl ValidationError | Some ys \<Rightarrow> Inr ys)"
  by (induction xs) (auto simp: model_validate_def split: option.splits)

lemma validate_each_array:
  "validate_each v (JArray xs) = model_validate (validate_list v) (JArray xs)"
  by (simp add: validate_each_def py_iter_def bind_err_def list_comp_those model_validate_def
        validate_list_def)

text \<open>
  C6. \<^verbatim>\<open>get_messages\<close> on a 200 response whose body is the empty JSON object: the
  body is no array of messages (the schema \<^verbatim>\<open>list[Message]\<close> rejects it), yet the
  call raises nothing and returns the empty list, because the comprehension of line 92
  iterates over the keys of the object and there are none.
\<close>

theorem get_messages_empty_object_accepted:
  "fst (get_messages (answer 200 ''{}'' (Some (JObject []))) (init ''http://localhost:3000'') ''s1'')
     = Inr [] \<and>
   validate_list validate_Message (JObject []) = None"
  by (simp add: get_messages_def checked_def send_def init_def new_AsyncClient_def answer_def
        bind_err_def check_response_def is_success_def json_of_def validate_each_def
        py_iter_def validate_list_def)

lemma kb_minimal:
  assumes "map_of kvs ''id'' = Some (JString i)" and "map_of kvs ''name'' = Some (JString n)"
    and "map_of kvs ''created_at'' = Some (JString ca)"
    and "map_of kvs ''updated_at'' = Some (JString ua)"
  shows "validate_KnowledgeBase S (JObject kvs) =
           (case with_default (nullable validate_str) None kvs ''description'' of
              None \<Rightarrow> None
            | Some d \<Rightarrow>
                (case with_default (validate_KnowledgeBaseConfig S) default_KnowledgeBaseConfig
                        kvs ''config'' of
                   None \<Rightarrow> None
                 | Some g \<Rightarrow>
                     Some \<lparr>kb_id = i, kb_name = n, kb_description = d, kb_config = g,
                           kb_created_at = ca, kb_updated_at = ua\<rparr>))"
  using assms
  by (simp add: validate_KnowledgeBase_def required_def validate_str_def
        split: option.splits Option.bind_splits)

lemma kb_missing_required:
  assumes "map_of kvs ''id'' = None \<or> map_of kvs ''name'' = None \<or>
           map_of kvs ''created_at'' = None \<or> map_of kvs ''updated_at'' = None"
  shows "validate_KnowledgeBase S (JObject kvs) = None"
  using assms
  by (auto simp add: validate_KnowledgeBase_def required_def split: Option.bind_splits)

lemma config_all_omitted:
  assumes "map_of cfg ''embedding_provider'' = None" and "map_of cfg ''embedding_model'' = None"
    and "map_of cfg ''vector_dimensions'' = None" and "map_of cfg ''file_processor'' = None"
    and "map_of cfg ''chunk_strategy'' = None"
  shows "validate_KnowledgeBaseConfig S (JObject cfg) = Some default_KnowledgeBaseConfig"
  using assms
  by (simp add: validate_KnowledgeBaseConfig_def with_default_def default_KnowledgeBaseConfig_def)

lemma config_omitted_field:
  assumes "validate_KnowledgeBaseConfig S (JObject cfg) = Some k"
  shows "(map_of cfg ''embedding_provider'' = None \<longrightarrow> cfg_embedding_provider k = []) \<and>
         (map_of cfg ''embedding_model'' = None \<longrightarrow> cfg_embedding_model k = []) \<and>
         (map_of cfg ''vector_dimensions'' = None \<longrightarrow> cfg_vector_dimensions k = None) \<and>
         (map_of cfg ''file_processor'' = None \<longrightarrow> cfg_file_processor k = []) \<and>
         (map_of cfg ''chunk_strategy'' = None \<longrightarrow> cfg_chunk_strategy k = [])"
  using assms
  by (auto simp add: validate_KnowledgeBaseConfig_def with_default_def
        split: Option.bind_splits)

text \<open>
  C10. A KnowledgeBase payload needs only \<open>id\<close>, \<open>name\<close>, \<open>created_at\<close> and
  \<open>updated_at\<close>. With these four present as strings, a payload without
  \<open>description\<close> and without \<open>config\<close> validates, with description None and
  config the default (four empty strings and vector_dimensions None); either of the two
  may be left out while the other is given. A config object without its five keys
  validates to the same default, and in any config that validates every key left out
  has its default. A payload that lacks one of the four required keys is rejected.
\<close>

theorem knowledge_base_optional_fields:
  "(map_of kvs ''id'' = Some (JString i) \<and> map_of kvs ''name'' = Some (JString n) \<and>
    map_of kvs ''created_at'' = Some (JString ca) \<and>
    map_of kvs ''updated_at'' = Some (JString ua) \<longrightarrow>
      (map_of kvs ''description'' = None \<and> map_of kvs ''config'' = None \<longrightarrow>
         validate_KnowledgeBase S (JObject kvs) =
           Some \<lparr>kb_id = i, kb_name = n, kb_description = None,
                 kb_config = \<lparr>cfg_embedding_provider = [], cfg_embedding_model = [],
                               cfg_vector_dimensions = None, cfg_file_processor = [],
                               cfg_chunk_strategy = []\<rparr>,
                 kb_created_at = ca, kb_updated_at = ua\<rparr>) \<and>
      (map_of kvs ''description'' = None \<and> map_of kvs ''config'' = Some jc \<and>
       validate_KnowledgeBaseConfig S jc = Some g \<longrightarrow>
         validate_KnowledgeBase S (JObject kvs) =
           Some \<lparr>kb_id = i, kb_name = n, kb_description = None, kb_config = g,
                 kb_created_at = ca, kb_updated_at = ua\<rparr>) \<and>
      (map_of kvs ''description'' = Some (JString d) \<and> map_of kvs ''config'' = None \<longrightarrow>
         validate_KnowledgeBase S (JObject kvs) =
           Some \<lparr>kb_id = i, kb_name = n, kb_description = Some d,
                 kb_config = \<lparr>cfg_embedding_provider = [], cfg_embedding_model = [],
                               cfg_vector_dimensions = None, cfg_file_processor = [],
                               cfg_chunk_strategy = []\<rparr>,
                 kb_created_at = ca, kb_updated_at = ua\<rparr>)) \<and>
   (map_of cfg ''embedding_provider'' = None \<and> map_of cfg ''embedding_model'' = None \<and>
    map_of cfg ''vector_dimensions'' = None \<and> map_of cfg ''file_processor'' = None \<and>
    map_of cfg ''chunk_strategy'' = None \<longrightarrow>
      validate_KnowledgeBaseConfig S (JObject cfg) =
        Some \<lparr>cfg_embedding_provider = [], cfg_embedding_model = [],
              cfg_vector_dimensions = None, cfg_file_processor = [],
              cfg_chunk_strategy = []\<rparr>) \<and>
   (validate_KnowledgeBaseConfig S (JObject cfg) = Some k \<longrightarrow>
      (map_of cfg ''embedding_provider'' = None \<longrightarrow> cfg_embedding_provider k = []) \<and>
      (map_of cfg ''embedding_model'' = None \<longrightarrow> cfg_embedding_model k = []) \<and>
      (map_of cfg ''vector_dimensions'' = None \<longrightarrow> cfg_vector_dimensions k = None) \<and>
      (map_of cfg ''file_processor'' = None \<longrightarrow> cfg_file_processor k = []) \<and>
      (map_of cfg ''chunk_strategy'' = None \<longrightarrow> cfg_chunk_strategy k = [])) \<and>
   (map_of kvs ''id'' = None \<or> map_of kvs ''name'' = None \<or>
    map_of kvs ''created_at'' = None \<or> map_of kvs ''updated_at'' = None \<longrightarrow>
      validate_KnowledgeBase S (JObject kvs) = None)"
proof -
  have a: "map_of kvs ''id'' = Some (JString i) \<and> map_of kvs ''name'' = Some (JString n) \<and>
      map_of kvs ''created_at'' = Some (JString ca) \<and>
      map_of kvs ''updated_at'' = Some (JString ua) \<longrightarrow>
        (map_of kvs ''description'' = None \<and> map_of kvs ''config'' = None \<longrightarrow>
           validate_KnowledgeBase S (JObject kvs) =
             Some \<lparr>kb_id = i, kb_name = n, kb_description = None,
                   kb_config = default_KnowledgeBaseConfig,
                   kb_created_at = ca, kb_updated_at = ua\<rparr>) \<and>
        (map_of kvs ''description'' = None \<and> map_of kvs ''config'' = Some jc \<and>
         validate_KnowledgeBaseConfig S jc = Some g \<longrightarrow>
           validate_KnowledgeBase S (JObject kvs) =
             Some \<lparr>kb_id = i, kb_name = n, kb_description = None, kb_config = g,
                   kb_created_at = ca, kb_updated_at = ua\<rparr>) \<and>
        (map_of kvs ''description'' = Some (JString d) \<and> map_of kvs ''config'' = None \<longrightarrow>
           validate_KnowledgeBase S (JObject kvs) =
             Some \<lparr>kb_id = i, kb_name = n, kb_description = Some d,
                   kb_config = default_KnowledgeBaseConfig,
                   kb_created_at = ca, kb_updated_at = ua\<rparr>)"
    by (simp add: kb_minimal with_default_def nullable_def validate_str_def)
  have b: "map_of cfg ''embedding_provider'' = None \<and> map_of cfg ''embedding_model'' = None \<and>
      map_of cfg ''vector_dimensions'' = None \<and> map_of cfg ''file_processor'' = None \<and>
      map_of cfg ''chunk_strategy'' = None \<longrightarrow>
        validate_KnowledgeBaseConfig S (JObject cfg) = Some default_KnowledgeBaseConfig"
    by (simp add: config_all_omitted)
  show ?thesis
    using a b config_omitted_field [of S cfg k] kb_missing_required [of kvs S]
    unfolding default_KnowledgeBaseConfig_def by blast
qed

theorem knowledge_base_optional_fields_witness:
  "validate_KnowledgeBase exact_scalars
     (JObject [(''id'', JString ''kb1''), (''name'', JString ''Manuals''),
               (''created_at'', JString ''2024-05-01T10:00:00Z''),
               (''updated_at'', JString ''2024-05-02T08:30:00Z'')])
     = Some \<lparr>kb_id = ''kb1'', kb_name = ''Manuals'', kb_description = None,
             kb_config = \<lparr>cfg_embedding_provider = [], cfg_embedding_model = [],
                           cfg_vector_dimensions = None, cfg_file_processor = [],
                           cfg_chunk_strategy = []\<rparr>,
             kb_created_at = ''2024-05-01T10:00:00Z'',
             kb_updated_at = ''2024-05-02T08:30:00Z''\<rparr> \<and>
   validate_KnowledgeBaseConfig exact_scalars (JObject [(''vector_dimensions'', JInt 384)])
     = Some \<lparr>cfg_embedding_provider = [], cfg_embedding_model = [],
             cfg_vector_dimensions = Some 384, cfg_file_processor = [],
             cfg_chunk_strategy = []\<rparr> \<and>
   validate_KnowledgeBaseConfig exact_scalars (JObject []) =
     Some \<lparr>cfg_embedding_provider = [], cfg_embedding_model = [],
           cfg_vector_dimensions = None, cfg_file_processor = [],
           cfg_chunk_strategy = []\<rparr> \<and>
   validate_KnowledgeBase exact_scalars
     (JObject [(''name'', JString ''Manuals''),
               (''created_at'', JString ''2024-05-01T10:00:00Z''),
               (''updated_at'', JString ''2024-05-02T08:30:00Z'')]) = None"
proof -
  let ?kvs = "[(''id'', JString ''kb1''), (''name'', JString ''Manuals''),
               (''created_at'', JString ''2024-05-01T10:00:00Z''),
               (''updated_at'', JString ''2024-05-02T08:30:00Z'')]"
  let ?bad = "[(''name'', JString ''Manuals''),
               (''created_at'', JString ''2024-05-01T10:00:00Z''),
               (''updated_at'', JString ''2024-05-02T08:30:00Z'')]"
  let ?cfg = "[(''vector_dimensions'', JInt 384)]"
  have v: "validate_KnowledgeBaseConfig exact_scalars (JObject ?cfg)
             = Some \<lparr>cfg_embedding_provider = [], cfg_embedding_model = [],
                     cfg_vector_dimensions = Some 384, cfg_file_processor = [],
                     cfg_chunk_strategy = []\<rparr>"
    by (simp add: validate_KnowledgeBaseConfig_def with_default_def nullable_def
          exact_scalars_def)
  show ?thesis
    using v
      knowledge_base_optional_fields [of ?kvs "''kb1''" "''Manuals''" "''2024-05-01T10:00:00Z''"
        "''2024-05-02T08:30:00Z''" exact_scalars "JNull" default_KnowledgeBaseConfig "[]" "[]"
        default_KnowledgeBaseConfig]
      knowledge_base_optional_fields [of ?bad "[]" "[]" "[]" "[]" exact_scalars "JNull"
        default_KnowledgeBaseConfig "[]" "[]" default_KnowledgeBaseConfig]
    by simp
qed

section \<open>Releasing the connection\<close>

lemma aclose_released_once: "released_once h \<Longrightarrow> released_once (aclose h)"
  by (simp add: released_once_def aclose_def)

lemma aclose_closed: "released_once h \<Longrightarrow> state (aclose h) = CLOSED \<and> releases (aclose h) = 1"
  by (simp add: released_once_def aclose_def)

lemma send_released_once: "released_once h \<Longrightarrow> released_once (snd (send t h req))"
  by (simp add: released_once_def send_def)

lemma checked_released_once:
  "released_once (http c) \<Longrightarrow> released_once (http (snd (checked t c req)))"
  using send_released_once [of "http c" t req] by (simp add: checked_def case_prod_beta)

lemma perform_released_once:
  "released_once (http c) \<Longrightarrow> released_once (http (snd (perform S t c k)))"
  by (cases k)
     (simp_all add: tagged_def chat_def get_messages_def create_run_def
        list_knowledge_bases_def create_knowledge_base_def get_knowledge_base_def
        delete_knowledge_base_def list_documents_def search_def ingest_def
        case_prod_beta checked_released_once)

lemma run_released_once:
  "released_once (http c) \<Longrightarrow> released_once (http (snd (run S t c as)))"
proof (induction as arbitrary: c)
  case Nil
  then show ?case by simp
next
  case (Cons a as)
  show ?case
  proof (cases a)
    case (Call k)
    obtain r c' where p: "perform S t c k = (r, c')" by (cases "perform S t c k")
    then have "released_once (http c')"
      using perform_released_once [OF Cons.prems, of S t k] by simp
    with p Call Cons.IH [of c'] show ?thesis by (cases r) simp_all
  next
    case Close
    have "released_once (http (close c))"
      using aclose_released_once [OF Cons.prems] by (simp add: close_def)
    with Close Cons.IH [of "close c"] show ?thesis by simp
  qed
qed

lemma init_released_once: "released_once (http (init b))"
  by (simp add: released_once_def init_def new_AsyncClient_def)

text \<open>
  C9. Whatever the caller does inside an \<^verbatim>\<open>async with\<close> block (calls that succeed, a
  call that raises and ends the block, explicit \<^verbatim>\<open>close()\<close>), after the block the
  client is closed and its connection has been released exactly once. The same holds
  after an explicit \<^verbatim>\<open>close()\<close> that follows any such sequence, and a scope exit
  after an explicit close does not release a second time.
\<close>

theorem connection_released_exactly_once:
  "releases (http (snd (async_with S t b as))) = 1 \<and>
   state (http (snd (async_with S t b as))) = CLOSED \<and>
   releases (http (close (snd (run S t (init b) as)))) = 1 \<and>
   state (http (close (snd (run S t (init b) as)))) = CLOSED \<and>
   releases (http (aexit (close (snd (run S t (init b) as))))) = 1"
proof -
  let ?c = "snd (run S t (init b) as)"
  have r: "released_once (http ?c)"
    by (rule run_released_once [OF init_released_once])
  have c: "released_once (http (close ?c))"
    using aclose_released_once [OF r] by (simp add: close_def)
  have 1: "state (http (close ?c)) = CLOSED \<and> releases (http (close ?c)) = 1"
    using aclose_closed [OF r] by (simp add: close_def)
  have 2: "state (http (aexit ?c)) = CLOSED \<and> releases (http (aexit ?c)) = 1"
    using aclose_closed [OF r] by (simp add: aexit_def)
  have 3: "releases (http (aexit (close ?c))) = 1"
    using aclose_closed [OF c] by (simp add: aexit_def)
  have w: "snd (async_with S t b as) = aexit ?c"
    by (simp add: async_with_def aenter_def case_prod_beta)
  show ?thesis using 1 2 3 w by simp
qed

end
